theory Spec2Isabelle
  imports Complex_Main "HOL-Library.Sublist"
begin

section \<open>Python values used by the program\<close>

text \<open>
  Coordinates are Python numbers: grid coordinates read from a raster image are ints,
  coordinates read from a DXF file are floats. A float is represented by the real number
  it holds; the special values (infinities, NaN, the negative zero) are outside the model.
\<close>

datatype pynum = PyInt int | PyFloat real

fun val :: "pynum \<Rightarrow> real" where
  "val (PyInt n) = of_int n"
| "val (PyFloat r) = r"

type_synonym coord = "pynum \<times> pynum"
type_synonym shape = "coord list"

datatype error =
    IndexError | ValueError | UnboundLocalError | ZeroDivisionError | RecursionError

definition nl :: char where
  "nl = CHR 0x0A"

subsection \<open>Text of a number\<close>

definition digit_char :: "nat \<Rightarrow> char" where
  "digit_char d = ''0123456789'' ! d"

fun str_nat :: "nat \<Rightarrow> string" where
  "str_nat n = (if n < 10 then [digit_char n] else str_nat (n div 10) @ [digit_char (n mod 10)])"

declare str_nat.simps [simp del]

text \<open>\<^verbatim>\<open>str(n)\<close> of an int: the decimal digits, after a minus sign when negative.\<close>

definition str_int :: "int \<Rightarrow> string" where
  "str_int n = (if n < 0 then CHR ''-'' # str_nat (nat (- n)) else str_nat (nat n))"

text \<open>
  \<^verbatim>\<open>str(v)\<close>. A float that holds an integer below \<open>10^16\<close> in magnitude prints as
  that integer followed by \<^verbatim>\<open>.0\<close>. Every other float prints as the shortest decimal that
  reads back as the same float; that text is the parameter \<open>float_repr\<close>.
\<close>

fun py_str :: "(real \<Rightarrow> string) \<Rightarrow> pynum \<Rightarrow> string" where
  "py_str float_repr (PyInt n) = str_int n"
| "py_str float_repr (PyFloat r) =
     (if frac r = 0 \<and> \<bar>r\<bar> < 10 ^ 16 then str_int \<lfloor>r\<rfloor> @ ''.0'' else float_repr r)"

text \<open>\<^verbatim>\<open>v % 1.0\<close>: the int is converted to a float first, so the result is the
  fractional part in both cases.\<close>

fun py_mod1 :: "pynum \<Rightarrow> real" where
  "py_mod1 (PyInt n) = frac (of_int n)"
| "py_mod1 (PyFloat r) = frac r"

text \<open>The examples with int coordinates never ask for the text of a float; where a
  closed term is needed they are given this function.\<close>

definition no_float_repr :: "real \<Rightarrow> string" where
  "no_float_repr r = []"

section \<open>G-code emission: \<^verbatim>\<open>toTextFile\<close>\<close>

text \<open>The text of one axis value (\<^verbatim>\<open>xstr\<close>, \<^verbatim>\<open>ystr\<close>).\<close>

definition axis_str :: "(real \<Rightarrow> string) \<Rightarrow> pynum \<Rightarrow> string" where
  "axis_str float_repr v =
     (if py_mod1 v = 0 then py_str float_repr v @ ''.'' else py_str float_repr v)"

text \<open>The positioning line written for one coordinate.\<close>

definition coord_line :: "(real \<Rightarrow> string) \<Rightarrow> coord \<Rightarrow> string" where
  "coord_line float_repr c =
     ''X'' @ axis_str float_repr (fst c) @ '' Y'' @ axis_str float_repr (snd c) @ ''\<newline>''"

text \<open>
  The state of the emitter is the sequence of strings written to the file so far and the
  flag \<^verbatim>\<open>up\<close>. \<open>emit_coord\<close> is the body of the inner loop, \<open>emit_shape\<close> the body of
  the outer loop.
\<close>

definition emit_coord :: "(real \<Rightarrow> string) \<Rightarrow> string list \<times> bool \<Rightarrow> coord \<Rightarrow> string list \<times> bool" where
  "emit_coord float_repr st c =
     (let out = fst st @ [coord_line float_repr c]
      in if snd st then (out @ [''Z0.\<newline>''], False) else (out, snd st))"

definition emit_shape :: "(real \<Rightarrow> string) \<Rightarrow> string list \<times> bool \<Rightarrow> shape \<Rightarrow> string list \<times> bool" where
  "emit_shape float_repr st sh =
     (let st' = foldl (emit_coord float_repr) st sh
      in (fst st' @ [''Z1.\<newline>''], True))"

definition toTextFile_writes :: "(real \<Rightarrow> string) \<Rightarrow> shape list \<Rightarrow> string list" where
  "toTextFile_writes float_repr shapes =
     (let st = foldl (emit_shape float_repr)
                 ([''G17 G21 G90 G54\<newline>'', ''G00 X0. Y0.\<newline>''], True) shapes
      in fst st @ [''X0. Y0.\<newline>M2''])"

text \<open>The content of the file after \<^verbatim>\<open>file.close()\<close>.\<close>

definition toTextFile :: "(real \<Rightarrow> string) \<Rightarrow> shape list \<Rightarrow> string" where
  "toTextFile float_repr shapes = concat (toTextFile_writes float_repr shapes)"

section \<open>G-code alignment: \<^verbatim>\<open>g_code_allignment\<close>\<close>

text \<open>\<^verbatim>\<open>s.split('\n')\<close> and \<^verbatim>\<open>'\n'.join(xs)\<close>.\<close>

fun split_nl :: "string \<Rightarrow> string list" where
  "split_nl [] = [[]]"
| "split_nl (c # cs) =
     (if c = nl then [] # split_nl cs
      else (case split_nl cs of [] \<Rightarrow> [[c]] | l # ls \<Rightarrow> (c # l) # ls))"

fun join_nl :: "string list \<Rightarrow> string" where
  "join_nl [] = []"
| "join_nl [x] = x"
| "join_nl (x # y # ys) = x @ nl # join_nl (y # ys)"

definition startswith :: "string \<Rightarrow> string \<Rightarrow> bool" where
  "startswith s p = prefix p s"

definition align_line :: "bool \<times> string list \<Rightarrow> string \<Rightarrow> bool \<times> string list" where
  "align_line st line =
     (if startswith line ''Z0'' then (False, snd st)
      else if startswith line ''Z1'' then (True, snd st)
      else if startswith line ''X'' then
        (fst st, snd st @ [(if fst st then ''G00 '' else ''G01 '') @ line])
      else st)"

definition g_code_allignment :: "string \<Rightarrow> string" where
  "g_code_allignment g_code =
     (let st = foldl align_line (True, [''G00 X0. Y0.'']) (split_nl g_code)
      in join_nl (snd st @ [''G00 X0. Y0.\<newline>'']))"

text \<open>A line of the aligner's output that the aligner itself would drop: it starts
  with a motion code and holds no line break.\<close>

definition marked :: "string \<Rightarrow> bool" where
  "marked m = (prefix ''G0'' m \<and> nl \<notin> set m)"

section \<open>Path simplification: \<^verbatim>\<open>smoothRasterCoords\<close>\<close>

definition SMOOTHERR :: real where
  "SMOOTHERR = 1"

text \<open>\<^verbatim>\<open>linePointDist(m, b, p)\<close>; \<^verbatim>\<open>** 0.5\<close> is the square root.\<close>

definition linePointDist :: "real \<Rightarrow> real \<Rightarrow> coord \<Rightarrow> real" where
  "linePointDist m b p =
     (let n = m * val (fst p) - val (snd p) + b;
          d = sqrt (m ^ 2 + 1)
      in \<bar>n / d\<bar>)"

text \<open>
  The body of the loop over \<open>j\<close> up to the test of \<^verbatim>\<open>canDel\<close>. The division that computes
  the slope raises \<^verbatim>\<open>ZeroDivisionError\<close> exactly when the two points have the same \<open>x\<close>; the
  handler then compares the \<open>x\<close> coordinates. Both loops over the midpoints leave
  \<^verbatim>\<open>canDel\<close> true iff no midpoint is at distance \<open>SMOOTHERR\<close> or more.
\<close>

definition canDel :: "shape \<Rightarrow> nat \<Rightarrow> nat \<Rightarrow> bool" where
  "canDel cs i j =
     (let midpoints = take (j - (i + 1)) (drop (i + 1) cs)
      in if val (fst (cs ! j)) - val (fst (cs ! i)) \<noteq> 0 then
           (let m = (val (snd (cs ! j)) - val (snd (cs ! i))) /
                    (val (fst (cs ! j)) - val (fst (cs ! i)));
                b = val (snd (cs ! i)) - m * val (fst (cs ! i))
            in list_all (\<lambda>point. \<not> linePointDist m b point \<ge> SMOOTHERR) midpoints)
         else
           list_all (\<lambda>point. \<not> \<bar>val (fst (cs ! i)) - val (fst point)\<bar> \<ge> SMOOTHERR) midpoints)"

text \<open>
  The loop \<^verbatim>\<open>while j > i + 1\<close>, on the state \<open>(i, j, newCoords[s])\<close>. It returns \<open>i\<close> and
  \<open>newCoords[s]\<close> as they are when the loop ends.
\<close>

function smooth_inner :: "shape \<Rightarrow> nat \<Rightarrow> nat \<Rightarrow> shape \<Rightarrow> nat \<times> shape" where
  "smooth_inner cs i j new =
     (if j > i + 1 then
        (if canDel cs i j then smooth_inner cs j (j - 1) (new @ [cs ! i, cs ! j])
         else smooth_inner cs i (j - 1) new)
      else (i, new))"
  by pat_completeness auto
termination
  by (relation "measure (\<lambda>(cs, i, j, new). j)") auto

declare smooth_inner.simps [simp del]

lemma smooth_inner_cases:
  "smooth_inner cs i j new = (i, new) \<or>
   (\<exists>k. i + 1 < k \<and> k \<le> j \<and> smooth_inner cs i j new = (k, new @ [cs ! i, cs ! k]))"
proof (induction j)
  case 0
  show ?case by (simp add: smooth_inner.simps)
next
  case (Suc j)
  show ?case
  proof (cases "Suc j > i + 1")
    case False
    then show ?thesis by (simp add: smooth_inner.simps)
  next
    case True
    show ?thesis
    proof (cases "canDel cs i (Suc j)")
      case True
      have "smooth_inner cs (Suc j) j (new @ [cs ! i, cs ! Suc j]) = (Suc j, new @ [cs ! i, cs ! Suc j])"
        by (simp add: smooth_inner.simps)
      with True \<open>Suc j > i + 1\<close> show ?thesis
        by (subst (1 2) smooth_inner.simps) auto
    next
      case False
      with \<open>Suc j > i + 1\<close> have "smooth_inner cs i (Suc j) new = smooth_inner cs i j new"
        by (subst smooth_inner.simps) simp
      with Suc show ?thesis by auto
    qed
  qed
qed

lemma smooth_inner_ge [termination_simp]: "i \<le> fst (smooth_inner cs i j new)"
  using smooth_inner_cases [of cs i j new] by auto

text \<open>The loop \<^verbatim>\<open>while i < len(coords[s]) - 2\<close>, on the state \<open>(i, newCoords[s])\<close>.\<close>

function smooth_outer :: "shape \<Rightarrow> nat \<Rightarrow> shape \<Rightarrow> shape" where
  "smooth_outer cs i new =
     (if i < length cs - 2 then
        (case smooth_inner cs i (length cs - 1) new of
           (i', new') \<Rightarrow> smooth_outer cs (i' + 1) new')
      else new)"
  by pat_completeness auto
termination
proof (relation "measure (\<lambda>(cs, i, new). length cs - i)")
  show "wf (measure (\<lambda>(cs, i, new). length cs - i))" by simp
next
  fix cs :: shape and i :: nat and new x :: "shape" and i' new'
  assume "i < length cs - 2" and "(i', new') = smooth_inner cs i (length cs - 1) new"
  then have "i \<le> i'"
    using smooth_inner_ge [of i cs "length cs - 1" new] by (metis fst_conv)
  with \<open>i < length cs - 2\<close>
  show "((cs, i' + 1, new'), (cs, i, new)) \<in> measure (\<lambda>(cs, i, new). length cs - i)"
    by auto
qed

declare smooth_outer.simps [simp del]

text \<open>The body of the first loop over the shapes, and the whole function: the second loop
  puts the original shape back where nothing was kept.\<close>

definition smooth_shape :: "shape \<Rightarrow> shape" where
  "smooth_shape cs = (if length cs \<le> 2 then cs else smooth_outer cs 0 [])"

definition smoothRasterCoords :: "shape list \<Rightarrow> shape list" where
  "smoothRasterCoords coords =
     (let newCoords = map smooth_shape coords
      in map (\<lambda>(new, old). if length new = 0 then old else new) (zip newCoords coords))"

section \<open>Raster tracing\<close>

definition IMDIM :: int where
  "IMDIM = 305"

text \<open>
  The image, as the program reads it: \<open>im p\<close> is \<^verbatim>\<open>sum(im.getpixel(p))\<close>, the sum of the
  channels of the pixel, or \<open>None\<close> where \<^verbatim>\<open>getpixel\<close> raises \<^verbatim>\<open>IndexError\<close>.
\<close>

type_synonym pixel = "int \<times> int"
type_synonym image = "pixel \<Rightarrow> nat option"

text \<open>The global variables \<^verbatim>\<open>direc\<close> and \<^verbatim>\<open>done\<close>.\<close>

record tracer =
  direc :: int
  done_px :: "pixel list"

text \<open>A read guarded by \<^verbatim>\<open>try\<close> / \<^verbatim>\<open>except IndexError\<close>: white outside the image.\<close>

definition pixel_sum :: "image \<Rightarrow> pixel \<Rightarrow> nat" where
  "pixel_sum im p = (case im p of None \<Rightarrow> 255 + 255 + 255 | Some v \<Rightarrow> v)"

definition is_dark :: "image \<Rightarrow> pixel \<Rightarrow> bool" where
  "is_dark im p = (pixel_sum im p < 127 + 127 + 127)"

definition isOnEdge :: "image \<Rightarrow> pixel \<Rightarrow> bool" where
  "isOnEdge im px =
     (let hues = [pixel_sum im (fst px - 1, snd px), pixel_sum im (fst px, snd px - 1),
                  pixel_sum im (fst px + 1, snd px), pixel_sum im (fst px, snd px + 1)]
      in foldl max (hd hues) (tl hues) > 127 + 127 + 127)"

text \<open>The turn (\<open>0\<close> right, \<open>1\<close> up, \<open>2\<close> left, \<open>3\<close> down) and the step in the new
  direction. The result of \<^verbatim>\<open>% 4\<close> is one of the four, so the chain of \<^verbatim>\<open>elif\<close> always
  assigns \<open>x\<close> and \<open>y\<close>.\<close>

definition turn :: "image \<Rightarrow> int \<Rightarrow> pixel \<Rightarrow> int" where
  "turn im d px = (if is_dark im px then (d - 1) mod 4 else (d + 1) mod 4)"

definition forward :: "int \<Rightarrow> pixel \<Rightarrow> pixel" where
  "forward d px =
     (if d = 0 then (fst px + 1, snd px)
      else if d = 1 then (fst px, snd px + 1)
      else if d = 2 then (fst px - 1, snd px)
      else (fst px, snd px - 1))"

text \<open>
  \<^verbatim>\<open>nextPixelInShape(im, px)\<close>. The function calls itself while the pixel it reaches is
  not dark. \<open>depth\<close> is the number of nested calls the interpreter still allows
  (\<^verbatim>\<open>sys.setrecursionlimit(10000)\<close>); the call that exceeds it raises \<^verbatim>\<open>RecursionError\<close>.
\<close>

fun nextPixelInShape :: "image \<Rightarrow> nat \<Rightarrow> tracer \<Rightarrow> pixel \<Rightarrow> error + pixel \<times> tracer" where
  "nextPixelInShape im 0 st px = Inl RecursionError"
| "nextPixelInShape im (Suc depth) st px =
     (let d = turn im (direc st) px;
          xy = forward d px
      in if is_dark im xy then
           Inr (xy, st\<lparr>direc := d,
                       done_px := (if xy \<notin> set (done_px st) then done_px st @ [xy] else done_px st)\<rparr>)
         else nextPixelInShape im depth (st\<lparr>direc := d\<rparr>) xy)"

text \<open>\<^verbatim>\<open>nextShape(im)\<close>: the scan over \<open>x\<close>, then \<open>y\<close>. The read of the pixel is not
  guarded here. The result \<open>(-1, -1)\<close> says that no shape is left.\<close>

fun nextShape_scan :: "image \<Rightarrow> tracer \<Rightarrow> pixel list \<Rightarrow> error + pixel \<times> tracer" where
  "nextShape_scan im st [] = Inr ((-1, -1), st)"
| "nextShape_scan im st (p # ps) =
     (case im p of
        None \<Rightarrow> Inl IndexError
      | Some v \<Rightarrow>
          if v < 127 + 127 + 127 \<and> isOnEdge im p \<and> p \<notin> set (done_px st)
          then Inr (p, st\<lparr>done_px := done_px st @ [p]\<rparr>)
          else nextShape_scan im st ps)"

definition nextShape :: "image \<Rightarrow> tracer \<Rightarrow> error + pixel \<times> tracer" where
  "nextShape im st =
     nextShape_scan im st (concat (map (\<lambda>x. map (\<lambda>y. (x, y)) [0..IMDIM - 1]) [0..IMDIM - 1]))"

text \<open>
  The two loops of \<^verbatim>\<open>readFromRaster\<close>. Neither has a bound, so each is a partial function:
  \<open>None\<close> is a loop that does not end. The inner loop works on \<open>point\<close>, \<open>nextpoint\<close>
  and the shape being traced, \<^verbatim>\<open>shapeList[i]\<close>.
\<close>

partial_function (option) trace_loop ::
  "image \<Rightarrow> nat \<Rightarrow> pixel \<Rightarrow> tracer \<Rightarrow> pixel \<Rightarrow> pixel \<Rightarrow> pixel list
     \<Rightarrow> (error + tracer \<times> pixel \<times> pixel \<times> pixel list) option" where
  "trace_loop im depth start st point nextpoint sh =
     (if nextpoint \<noteq> start then
        (case nextPixelInShape im depth st point of
           Inl e \<Rightarrow> Some (Inl e)
         | Inr r \<Rightarrow>
             trace_loop im depth start ((snd r)\<lparr>done_px := done_px (snd r) @ [fst r]\<rparr>)
               (fst r) (fst r) (sh @ [fst r]))
      else Some (Inr (st, point, nextpoint, sh)))"

partial_function (option) shapes_loop ::
  "image \<Rightarrow> nat \<Rightarrow> tracer \<Rightarrow> pixel \<Rightarrow> pixel \<Rightarrow> pixel list list
     \<Rightarrow> (error + tracer \<times> pixel list list) option" where
  "shapes_loop im depth st point nextpoint shapeList =
     (if point \<noteq> (-1, -1) then
        (case trace_loop im depth point st point nextpoint [point] of
           None \<Rightarrow> None
         | Some (Inl e) \<Rightarrow> Some (Inl e)
         | Some (Inr r) \<Rightarrow>
             (case nextShape im (fst r) of
                Inl e \<Rightarrow> Some (Inl e)
              | Inr n \<Rightarrow>
                  shapes_loop im depth (snd n) (fst n) (fst (snd (snd r)))
                    (shapeList @ [snd (snd (snd r))])))
      else Some (Inr (st, shapeList)))"

text \<open>Equality of two coordinates, by value.\<close>

definition coord_eq :: "coord \<Rightarrow> coord \<Rightarrow> bool" where
  "coord_eq a b = (val (fst a) = val (fst b) \<and> val (snd a) = val (snd b))"

text \<open>The last loop of \<^verbatim>\<open>readFromRaster\<close>: a shape that does not end on its first
  coordinate gets that coordinate appended. The index \<open>-1\<close> and the index \<open>0\<close> raise
  \<^verbatim>\<open>IndexError\<close> on an empty shape.\<close>

fun close_shapes :: "shape list \<Rightarrow> error + shape list" where
  "close_shapes [] = Inr []"
| "close_shapes (sh # shs) =
     (if sh = [] then Inl IndexError
      else (case close_shapes shs of
              Inl e \<Rightarrow> Inl e
            | Inr r \<Rightarrow> Inr ((if \<not> coord_eq (last sh) (hd sh) then sh @ [hd sh] else sh) # r)))"

definition readFromRaster :: "image \<Rightarrow> nat \<Rightarrow> tracer \<Rightarrow> (error + shape list \<times> tracer) option" where
  "readFromRaster im depth st =
     (case nextShape im st of
        Inl e \<Rightarrow> Some (Inl e)
      | Inr n \<Rightarrow>
          (case shapes_loop im depth (snd n) (fst n) (0, 0) [] of
             None \<Rightarrow> None
           | Some (Inl e) \<Rightarrow> Some (Inl e)
           | Some (Inr r) \<Rightarrow>
               (case close_shapes (smoothRasterCoords
                       (map (map (\<lambda>p. (PyInt (fst p), PyInt (snd p)))) (snd r))) of
                  Inl e \<Rightarrow> Some (Inl e)
                | Inr shapeList \<Rightarrow> Some (Inr (shapeList, fst r)))))"

text \<open>Two images for the examples: a white image of the size the program works on, and
  a white image of five by five pixels with one black pixel in the middle.\<close>

definition blank_image :: image where
  "blank_image p =
     (if 0 \<le> fst p \<and> fst p < IMDIM \<and> 0 \<le> snd p \<and> snd p < IMDIM then Some 765 else None)"

definition dot_image :: image where
  "dot_image p =
     (if p = (2, 2) then Some 0
      else if 0 \<le> fst p \<and> fst p < 5 \<and> 0 \<le> snd p \<and> snd p < 5 then Some 765 else None)"

section \<open>Reading a DXF file: \<^verbatim>\<open>readFromDXF\<close> and \<^verbatim>\<open>scale\<close>\<close>

text \<open>\<^verbatim>\<open>s.strip()\<close>: the white space of ASCII is removed at both ends.\<close>

definition is_space :: "char \<Rightarrow> bool" where
  "is_space c = (c \<in> set [CHR '' '', CHR 0x09, CHR 0x0A, CHR 0x0B, CHR 0x0C, CHR 0x0D,
                          CHR 0x1C, CHR 0x1D, CHR 0x1E, CHR 0x1F])"

definition strip :: "string \<Rightarrow> string" where
  "strip s = rev (dropWhile is_space (rev (dropWhile is_space s)))"

text \<open>
  The local variables of \<^verbatim>\<open>readFromDXF\<close>. \<open>dpath\<close> is \<^verbatim>\<open>path\<close>; \<open>xcur\<close> and \<open>ycur\<close> are
  \<^verbatim>\<open>x\<close> and \<^verbatim>\<open>y\<close>, which have no value before their first assignment; \<open>xold\<close> and
  \<open>yold\<close> start as the empty list, here \<open>None\<close>, which is different from every number.
\<close>

record dxf_state =
  segment :: int
  dpath :: "shape list"
  xold :: "real option"
  yold :: "real option"
  xcur :: "real option"
  ycur :: "real option"
  polyline :: int
  vertex :: int

definition dxf_init :: dxf_state where
  "dxf_init = \<lparr>segment = - 1, dpath = [], xold = None, yold = None, xcur = None, ycur = None,
               polyline = 0, vertex = 0\<rparr>"

text \<open>\<^verbatim>\<open>path[segment].append(c)\<close>, with the index of a Python list: a negative index counts
  from the end, an index out of range raises \<^verbatim>\<open>IndexError\<close>.\<close>

definition append_at :: "shape list \<Rightarrow> int \<Rightarrow> coord \<Rightarrow> error + shape list" where
  "append_at p k c =
     (let j = (if k < 0 then k + int (length p) else k)
      in if 0 \<le> j \<and> j < int (length p) then Inr (p[nat j := p ! nat j @ [c]])
         else Inl IndexError)"

text \<open>
  The loop over the lines, on the lines from index \<^verbatim>\<open>line\<close> on. \<open>float_of\<close> is
  \<^verbatim>\<open>float(s)\<close>, with \<open>None\<close> where it raises \<^verbatim>\<open>ValueError\<close>. The branches for the group
  codes 10 and 20 read the next line as well.
\<close>

fun dxf_loop :: "(string \<Rightarrow> real option) \<Rightarrow> dxf_state \<Rightarrow> string list \<Rightarrow> error + dxf_state" where
  "dxf_loop float_of st [] = Inr st"
| "dxf_loop float_of st (l # ls) =
     (if l = ''POLYLINE\<newline>'' then
        dxf_loop float_of (st\<lparr>segment := segment st + 1, polyline := 1, dpath := dpath st @ [[]]\<rparr>) ls
      else if l = ''VERTEX\<newline>'' then
        dxf_loop float_of (st\<lparr>vertex := 1\<rparr>) ls
      else if strip l = ''10'' \<and> vertex st = 1 \<and> polyline st = 1 then
        (case ls of
           [] \<Rightarrow> Inl IndexError
         | v # ls' \<Rightarrow>
             (case float_of v of
                None \<Rightarrow> Inl ValueError
              | Some x \<Rightarrow> dxf_loop float_of (st\<lparr>xcur := Some x\<rparr>) ls'))
      else if strip l = ''20'' \<and> vertex st = 1 \<and> polyline st = 1 then
        (case ls of
           [] \<Rightarrow> Inl IndexError
         | v # ls' \<Rightarrow>
             (case float_of v of
                None \<Rightarrow> Inl ValueError
              | Some y \<Rightarrow>
                  (case xcur st of
                     None \<Rightarrow> Inl UnboundLocalError
                   | Some x \<Rightarrow>
                       if Some x \<noteq> xold st \<or> Some y \<noteq> yold st then
                         (case append_at (dpath st) (segment st) (PyFloat x, PyFloat y) of
                            Inl e \<Rightarrow> Inl e
                          | Inr p \<Rightarrow>
                              dxf_loop float_of
                                (st\<lparr>ycur := Some y, dpath := p, xold := Some x, yold := Some y\<rparr>) ls')
                       else dxf_loop float_of (st\<lparr>ycur := Some y\<rparr>) ls')))
      else if l = ''SEQEND\<newline>'' then
        dxf_loop float_of (st\<lparr>polyline := 0, vertex := 0\<rparr>) ls
      else dxf_loop float_of st ls)"

text \<open>\<^verbatim>\<open>max(xs)\<close> and \<^verbatim>\<open>min(xs)\<close> of a list that is not empty.\<close>

definition list_max :: "real list \<Rightarrow> real" where
  "list_max xs = foldl max (hd xs) (tl xs)"

definition list_min :: "real list \<Rightarrow> real" where
  "list_min xs = foldl min (hd xs) (tl xs)"

text \<open>
  \<^verbatim>\<open>scale(path)\<close>, returning the rescaled path or the exception. The arithmetic of floats
  rounds each result; \<open>rnd\<close> is that rounding: the identity for exact arithmetic,
  \<open>double_round\<close> below for the doubles of the interpreter. \<^verbatim>\<open>max\<close> of an empty list
  raises \<^verbatim>\<open>ValueError\<close>, the division by a zero size raises \<^verbatim>\<open>ZeroDivisionError\<close>.
\<close>

definition scale :: "(real \<Rightarrow> real) \<Rightarrow> shape list \<Rightarrow> error + shape list" where
  "scale rnd path =
     (let x = concat (map (map (\<lambda>coord. val (fst coord))) path);
          y = concat (map (map (\<lambda>coord. val (snd coord))) path)
      in if x = [] then Inl ValueError
         else
           (let maxx = list_max x; maxy = list_max y;
                minx = list_min x; miny = list_min y;
                margin = min minx miny;
                size = rnd (max maxx maxy + margin)
            in if size = 0 then Inl ZeroDivisionError
               else
                 (let scale = rnd (of_int IMDIM / size)
                  in Inr (map (map (\<lambda>coord. (PyFloat (rnd (val (fst coord) * scale)),
                                              PyFloat (rnd (val (snd coord) * scale))))) path))))"

text \<open>
  Rounding to the nearest double, ties to even: the value is brought between \<open>2^52\<close>
  and \<open>2^53\<close> by doubling or halving, rounded to an integer there and brought back. The
  bound on the number of steps covers every exponent of a normal double; overflow and
  subnormal numbers are outside the model.
\<close>

definition round_even :: "real \<Rightarrow> real" where
  "round_even r =
     (let f = \<lfloor>r\<rfloor>; d = r - of_int f
      in if d < 1 / 2 then of_int f
         else if d > 1 / 2 then of_int (f + 1)
         else if even f then of_int f else of_int (f + 1))"

fun round53 :: "nat \<Rightarrow> real \<Rightarrow> real" where
  "round53 0 r = r"
| "round53 (Suc k) r =
     (if r < 2 ^ 52 then round53 k (2 * r) / 2
      else if 2 ^ 53 \<le> r then round53 k (r / 2) * 2
      else round_even r)"

definition double_round :: "real \<Rightarrow> real" where
  "double_round r =
     (if r = 0 then 0 else if r < 0 then - round53 1100 (- r) else round53 1100 r)"

definition readFromDXF ::
  "(string \<Rightarrow> real option) \<Rightarrow> (real \<Rightarrow> real) \<Rightarrow> string list \<Rightarrow> error + shape list" where
  "readFromDXF float_of rnd DXFtxt =
     (case dxf_loop float_of dxf_init DXFtxt of
        Inl e \<Rightarrow> Inl e
      | Inr st \<Rightarrow> scale rnd (dpath st))"

section \<open>Choosing the reader: \<^verbatim>\<open>imToPaths\<close>\<close>

definition endswith :: "string \<Rightarrow> string \<Rightarrow> bool" where
  "endswith s t = suffix t s"

text \<open>
  \<open>im\<close> is the image that \<^verbatim>\<open>initRaster(filename)\<close> returns and \<open>DXFtxt\<close> the lines that
  \<^verbatim>\<open>initDXF(filename)\<close> returns. The result comes with the global variables of the tracer,
  which only the raster branch changes.
\<close>

definition imToPaths ::
  "image \<Rightarrow> string list \<Rightarrow> (string \<Rightarrow> real option) \<Rightarrow> (real \<Rightarrow> real) \<Rightarrow> nat \<Rightarrow> tracer \<Rightarrow> string
     \<Rightarrow> (error + shape list \<times> tracer) option" where
  "imToPaths im DXFtxt float_of rnd depth st filename =
     (if endswith filename ''.jpg'' \<or> endswith filename ''.jpeg''
         \<or> endswith filename ''.png'' \<or> endswith filename ''.bmp'' then
        readFromRaster im depth st
      else if endswith filename ''.dxf'' then
        (case readFromDXF float_of rnd DXFtxt of
           Inl e \<Rightarrow> Some (Inl e)
         | Inr coords \<Rightarrow> Some (Inr (coords, st)))
      else Some (Inr ([[(PyInt 0, PyInt 0)]], st)))"

section \<open>Notions used in the statements\<close>




text \<open>\<^verbatim>\<open>float(s)\<close> on the value lines of the examples; any other line is not needed there.\<close>

definition float_table :: "string \<Rightarrow> real option" where
  "float_table = map_of [(''1.0\<newline>'', 1), (''2.0\<newline>'', 2), (''3.0\<newline>'', 3),
                         (''4.0\<newline>'', 4), (''5.0\<newline>'', 5), (''6.0\<newline>'', 6)]"

section \<open>Properties of the emitter\<close>

lemma foldl_emit_coord_down:
  "foldl (emit_coord fr) (out, False) cs = (out @ map (coord_line fr) cs, False)"
  by (induction cs arbitrary: out) (simp_all add: emit_coord_def)

lemma emit_shape_Nil: "emit_shape fr (out, up) [] = (out @ [''Z1.\<newline>''], True)"
  by (simp add: emit_shape_def)

lemma emit_shape_Cons:
  "emit_shape fr (out, True) (c # cs) =
     (out @ [coord_line fr c, ''Z0.\<newline>''] @ map (coord_line fr) cs @ [''Z1.\<newline>''], True)"
  by (simp add: emit_shape_def emit_coord_def foldl_emit_coord_down)

lemma emit_shape_out:
  "emit_shape fr (out, True) sh = (out @ fst (emit_shape fr ([], True) sh), True)"
  by (cases sh) (simp_all add: emit_shape_Nil emit_shape_Cons)

lemma foldl_emit_shape:
  "foldl (emit_shape fr) (out, True) shapes =
     (out @ concat (map (\<lambda>sh. fst (emit_shape fr ([], True) sh)) shapes), True)"
proof (induction shapes arbitrary: out)
  case Nil
  show ?case by simp
next
  case (Cons sh shapes)
  have "foldl (emit_shape fr) (out, True) (sh # shapes) =
        foldl (emit_shape fr) (out @ fst (emit_shape fr ([], True) sh), True) shapes"
    using emit_shape_out [of fr out sh] by simp
  then show ?case by (simp add: Cons.IH)
qed

lemma toTextFile_writes_blocks:
  "toTextFile_writes fr shapes =
     [''G17 G21 G90 G54\<newline>'', ''G00 X0. Y0.\<newline>''] @
     concat (map (\<lambda>sh. fst (emit_shape fr ([], True) sh)) shapes) @ [''X0. Y0.\<newline>M2'']"
  by (simp add: toTextFile_writes_def foldl_emit_shape)

lemmas emit_eval = toTextFile_def toTextFile_writes_def emit_shape_def emit_coord_def
  coord_line_def axis_str_def str_int_def str_nat.simps digit_char_def

text \<open>An int always takes the branch that appends the decimal point, and its text is
  \<^verbatim>\<open>str(n)\<close>, so the token is the digits (after the sign) and one point.\<close>

lemma axis_str_int: "axis_str fr (PyInt n) = str_int n @ ''.''"
  by (simp add: axis_str_def)

lemma axis_str_integral_float:
  "frac r = 0 \<Longrightarrow> \<bar>r\<bar> < 10 ^ 16 \<Longrightarrow> axis_str fr (PyFloat r) = str_int \<lfloor>r\<rfloor> @ ''.0.''"
  by (simp add: axis_str_def)

text \<open>
  C2. An axis value that is an integer should render as its digits followed by exactly one
  point, whether it is stored as an int or as a float. For the float \<^verbatim>\<open>3.0\<close> the
  emitter writes \<^verbatim>\<open>3.0.\<close>: \<^verbatim>\<open>str(3.0)\<close> already ends in \<^verbatim>\<open>.0\<close> and the point is
  appended to it. The program emitted for the one-point shape \<^verbatim>\<open>[[(3.0, 0.0)]]\<close>:
\<close>

theorem toTextFile_integral_float_two_points:
  "toTextFile fr [[(PyFloat 3, PyFloat 0)]] =
     join_nl [''G17 G21 G90 G54'', ''G00 X0. Y0.'', ''X3.0. Y0.0.'', ''Z0.'', ''Z1.'',
              ''X0. Y0.'', ''M2'']"
  by (simp add: emit_eval nl_def)

text \<open>
  C4. For the shape list \<^verbatim>\<open>[[(0,0),(1,0),(1,1),(0,0)]]\<close> the emitter writes, in order, the
  preamble, the rapid move to the origin, \<^verbatim>\<open>X0. Y0.\<close>, the pen-down marker, \<^verbatim>\<open>X1. Y0.\<close>,
  \<^verbatim>\<open>X1. Y1.\<close>, \<^verbatim>\<open>X0. Y0.\<close>, the pen-up marker, the final move to the origin and the
  program end. In general the program is the two header lines, one block per shape and the
  footer; the block of a shape with first coordinate \<open>c\<close> is the line of \<open>c\<close>, the
  pen-down marker, the lines of the other coordinates and the pen-up marker.
\<close>

theorem toTextFile_square_program:
  "toTextFile fr [[(PyInt 0, PyInt 0), (PyInt 1, PyInt 0), (PyInt 1, PyInt 1), (PyInt 0, PyInt 0)]] =
     join_nl [''G17 G21 G90 G54'', ''G00 X0. Y0.'', ''X0. Y0.'', ''Z0.'', ''X1. Y0.'',
              ''X1. Y1.'', ''X0. Y0.'', ''Z1.'', ''X0. Y0.'', ''M2'']
   \<and> emit_shape fr (out, True) (c # cs) =
       (out @ [coord_line fr c, ''Z0.\<newline>''] @ map (coord_line fr) cs @ [''Z1.\<newline>''], True)
   \<and> toTextFile_writes fr shapes =
       [''G17 G21 G90 G54\<newline>'', ''G00 X0. Y0.\<newline>''] @
       concat (map (\<lambda>sh. fst (emit_shape fr ([], True) sh)) shapes) @ [''X0. Y0.\<newline>M2'']"
proof -
  have "toTextFile fr [[(PyInt 0, PyInt 0), (PyInt 1, PyInt 0), (PyInt 1, PyInt 1), (PyInt 0, PyInt 0)]] =
     join_nl [''G17 G21 G90 G54'', ''G00 X0. Y0.'', ''X0. Y0.'', ''Z0.'', ''X1. Y0.'',
              ''X1. Y1.'', ''X0. Y0.'', ''Z1.'', ''X0. Y0.'', ''M2'']"
    by (simp add: emit_eval nl_def)
  then show ?thesis
    using emit_shape_Cons [of fr out c cs] toTextFile_writes_blocks [of fr shapes] by simp
qed

subsection \<open>Counting the pen markers\<close>

lemma coord_line_not_marker [simp]:
  "coord_line fr c \<noteq> ''Z0.\<newline>''" "coord_line fr c \<noteq> ''Z1.\<newline>''"
  by (simp_all add: coord_line_def)

lemma count_list_coord_lines [simp]:
  "count_list (map (coord_line fr) cs) ''Z0.\<newline>'' = 0"
  "count_list (map (coord_line fr) cs) ''Z1.\<newline>'' = 0"
  by (induction cs) simp_all

lemma count_block:
  "count_list (fst (emit_shape fr ([], True) sh)) ''Z1.\<newline>'' = 1"
  "count_list (fst (emit_shape fr ([], True) sh)) ''Z0.\<newline>'' = (if sh = [] then 0 else 1)"
  by (cases sh; simp add: emit_shape_Nil emit_shape_Cons)+

lemma count_blocks:
  "count_list (concat (map (\<lambda>sh. fst (emit_shape fr ([], True) sh)) shapes)) ''Z1.\<newline>''
     = length shapes"
  "count_list (concat (map (\<lambda>sh. fst (emit_shape fr ([], True) sh)) shapes)) ''Z0.\<newline>''
     = length (filter (\<lambda>sh. sh \<noteq> []) shapes)"
  by (induction shapes) (simp_all add: count_block)

lemma count_markers:
  "count_list (toTextFile_writes fr shapes) ''Z1.\<newline>'' = length shapes"
  "count_list (toTextFile_writes fr shapes) ''Z0.\<newline>'' = length (filter (\<lambda>sh. sh \<noteq> []) shapes)"
  by (simp_all add: toTextFile_writes_blocks count_blocks)

lemma filter_drops_one: "x \<in> set xs \<Longrightarrow> \<not> P x \<Longrightarrow> length (filter P xs) < length xs"
  by (induction xs) (auto simp: less_Suc_eq_le)

text \<open>
  C10. For an empty polyline the emitter writes the pen-up marker \<^verbatim>\<open>Z1.\<close> alone: no
  positioning line and no pen-down marker come before it. So in the program of a shape list
  that contains an empty polyline the pen-down markers are fewer than the pen-up markers.
\<close>

theorem toTextFile_empty_shape_unbalanced:
  "emit_shape fr (out, up) [] = (out @ [''Z1.\<newline>''], True)
   \<and> toTextFile_writes fr (ss @ [] # ts) =
       [''G17 G21 G90 G54\<newline>'', ''G00 X0. Y0.\<newline>''] @
       concat (map (\<lambda>sh. fst (emit_shape fr ([], True) sh)) ss) @ [''Z1.\<newline>''] @
       concat (map (\<lambda>sh. fst (emit_shape fr ([], True) sh)) ts) @ [''X0. Y0.\<newline>M2'']
   \<and> ([] \<in> set shapes \<longrightarrow>
        count_list (toTextFile_writes fr shapes) ''Z0.\<newline>''
          < count_list (toTextFile_writes fr shapes) ''Z1.\<newline>'')"
proof -
  have "[] \<in> set shapes \<Longrightarrow> length (filter (\<lambda>sh. sh \<noteq> []) shapes) < length shapes"
    by (rule filter_drops_one) simp_all
  then have "[] \<in> set shapes \<longrightarrow>
        count_list (toTextFile_writes fr shapes) ''Z0.\<newline>''
          < count_list (toTextFile_writes fr shapes) ''Z1.\<newline>''"
    by (simp add: count_markers)
  moreover have "toTextFile_writes fr (ss @ [] # ts) =
       [''G17 G21 G90 G54\<newline>'', ''G00 X0. Y0.\<newline>''] @
       concat (map (\<lambda>sh. fst (emit_shape fr ([], True) sh)) ss) @ [''Z1.\<newline>''] @
       concat (map (\<lambda>sh. fst (emit_shape fr ([], True) sh)) ts) @ [''X0. Y0.\<newline>M2'']"
    by (simp add: toTextFile_writes_blocks emit_shape_Nil)
  ultimately show ?thesis
    by (simp add: emit_shape_Nil)
qed

theorem toTextFile_empty_shape_unbalanced_witness:
  "[] \<in> set [[(PyInt 2, PyInt 5)], [], [(PyInt 1, PyInt 1)]]
   \<and> count_list (toTextFile_writes no_float_repr [[(PyInt 2, PyInt 5)], [], [(PyInt 1, PyInt 1)]]) ''Z0.\<newline>'' = 2
   \<and> count_list (toTextFile_writes no_float_repr [[(PyInt 2, PyInt 5)], [], [(PyInt 1, PyInt 1)]]) ''Z1.\<newline>'' = 3
   \<and> count_list (toTextFile_writes no_float_repr [[(PyInt 2, PyInt 5)], [], [(PyInt 1, PyInt 1)]]) ''Z0.\<newline>''
       < count_list (toTextFile_writes no_float_repr [[(PyInt 2, PyInt 5)], [], [(PyInt 1, PyInt 1)]]) ''Z1.\<newline>''"
  using toTextFile_empty_shape_unbalanced
    [of no_float_repr "[]" True "[]" "[]" "[[(PyInt 2, PyInt 5)], [], [(PyInt 1, PyInt 1)]]"]
  by (simp add: emit_eval)

section \<open>Properties of the aligner\<close>

subsection \<open>Splitting and joining lines\<close>

lemma split_nl_no_nl: "l \<in> set (split_nl s) \<Longrightarrow> nl \<notin> set l"
  by (induction s arbitrary: l) (auto split: if_splits list.splits)

lemma split_nl_line: "nl \<notin> set x \<Longrightarrow> split_nl (x @ nl # s) = x # split_nl s"
  by (induction x) auto

lemma split_nl_single: "nl \<notin> set x \<Longrightarrow> split_nl x = [x]"
  by (induction x) auto

lemma split_join_nl:
  "xs \<noteq> [] \<Longrightarrow> \<forall>x\<in>set xs. nl \<notin> set x \<Longrightarrow> split_nl (join_nl xs) = xs"
  by (induction xs rule: join_nl.induct) (simp_all add: split_nl_single split_nl_line)

lemma join_nl_last_newline: "join_nl (xs @ [a @ [nl]]) = join_nl (xs @ [a, []])"
  by (induction xs rule: join_nl.induct) simp_all

subsection \<open>The lines the aligner writes\<close>

lemma align_line_marked:
  "nl \<notin> set l \<Longrightarrow> list_all marked (snd st) \<Longrightarrow> list_all marked (snd (align_line st l))"
  by (simp add: align_line_def marked_def nl_def)

lemma foldl_align_marked:
  "\<forall>l\<in>set ls. nl \<notin> set l \<Longrightarrow> list_all marked (snd st)
     \<Longrightarrow> list_all marked (snd (foldl align_line st ls))"
  by (induction ls arbitrary: st) (simp_all add: align_line_marked)

lemma marked_not_X: "marked m \<Longrightarrow> \<not> prefix ''X'' m"
  by (cases m) (auto simp: marked_def)

lemma align_line_skip: "marked l \<or> l = [] \<Longrightarrow> align_line st l = st"
  by (cases l) (auto simp: align_line_def startswith_def marked_def)

lemma foldl_align_skip: "\<forall>l\<in>set ls. marked l \<or> l = [] \<Longrightarrow> foldl align_line st ls = st"
  by (induction ls) (simp_all add: align_line_skip)

text \<open>Whatever the input, the output of the aligner splits into marked lines and one
  empty line after the final line break.\<close>

lemma aligner_lines:
  "\<exists>ms. list_all marked ms \<and> split_nl (g_code_allignment p) = ms @ [[]]"
proof -
  define new where "new = snd (foldl align_line (True, [''G00 X0. Y0.'']) (split_nl p))"
  have start: "list_all marked (snd (True, [''G00 X0. Y0.'']))"
    by (simp add: marked_def nl_def)
  have "\<forall>l\<in>set (split_nl p). nl \<notin> set l"
    by (simp add: split_nl_no_nl)
  then have m: "list_all marked new"
    unfolding new_def using start by (rule foldl_align_marked)
  have g: "g_code_allignment p = join_nl (new @ [''G00 X0. Y0.'', []])"
    using join_nl_last_newline [of new "''G00 X0. Y0.''"]
    by (simp add: g_code_allignment_def new_def nl_def)
  have "\<forall>x\<in>set (new @ [''G00 X0. Y0.'', []]). nl \<notin> set x"
    using m by (auto simp: list_all_iff marked_def nl_def)
  then have "split_nl (g_code_allignment p) = (new @ [''G00 X0. Y0.'']) @ [[]]"
    unfolding g by (subst split_join_nl) simp_all
  moreover have "list_all marked (new @ [''G00 X0. Y0.''])"
    using m by (simp add: marked_def nl_def)
  ultimately show ?thesis by blast
qed

lemma aligner_twice:
  "g_code_allignment (g_code_allignment p) = ''G00 X0. Y0.\<newline>G00 X0. Y0.\<newline>''"
proof -
  obtain ms where ms: "list_all marked ms" "split_nl (g_code_allignment p) = ms @ [[]]"
    using aligner_lines by blast
  have "foldl align_line (True, [''G00 X0. Y0.'']) (ms @ [[]]) = (True, [''G00 X0. Y0.''])"
    by (rule foldl_align_skip) (use ms(1) in \<open>auto simp: list_all_iff\<close>)
  then show ?thesis
    by (simp add: g_code_allignment_def [of "g_code_allignment p"] ms(2) nl_def)
qed

lemmas align_eval = g_code_allignment_def align_line_def startswith_def

text \<open>
  C3, as stated: the aligned program of the square would be six lines, the rapid move to
  the origin, \<^verbatim>\<open>G00 X0. Y0.\<close>, the three cut moves and one rapid move to the origin. It is
  not, with or without a line break at the end.
\<close>

theorem aligned_square_not_six_lines:
  "g_code_allignment (toTextFile no_float_repr
      [[(PyInt 0, PyInt 0), (PyInt 1, PyInt 0), (PyInt 1, PyInt 1), (PyInt 0, PyInt 0)]])
     \<noteq> join_nl [''G00 X0. Y0.'', ''G00 X0. Y0.'', ''G01 X1. Y0.'', ''G01 X1. Y1.'',
                ''G01 X0. Y0.'', ''G00 X0. Y0.'']
   \<and> g_code_allignment (toTextFile no_float_repr
      [[(PyInt 0, PyInt 0), (PyInt 1, PyInt 0), (PyInt 1, PyInt 1), (PyInt 0, PyInt 0)]])
     \<noteq> join_nl [''G00 X0. Y0.'', ''G00 X0. Y0.'', ''G01 X1. Y0.'', ''G01 X1. Y1.'',
                ''G01 X0. Y0.'', ''G00 X0. Y0.'', []]"
  by (simp add: emit_eval align_eval nl_def)

text \<open>
  C3, amended. The aligned program of the square is seven lines, each ended by a line
  break: the rapid move to the origin that opens the frame, \<^verbatim>\<open>G00 X0. Y0.\<close> for the first
  coordinate, the three cut moves, \<^verbatim>\<open>G00 X0. Y0.\<close> for the emitter's own final move to the
  origin (it comes after the pen-up marker), and the rapid move to the origin that closes
  the frame. No line starts with \<^verbatim>\<open>Z\<close> and none is \<^verbatim>\<open>M2\<close>.
\<close>

theorem aligned_square_program:
  "g_code_allignment (toTextFile fr
      [[(PyInt 0, PyInt 0), (PyInt 1, PyInt 0), (PyInt 1, PyInt 1), (PyInt 0, PyInt 0)]])
     = join_nl [''G00 X0. Y0.'', ''G00 X0. Y0.'', ''G01 X1. Y0.'', ''G01 X1. Y1.'',
                ''G01 X0. Y0.'', ''G00 X0. Y0.'', ''G00 X0. Y0.'', []]
   \<and> list_all (\<lambda>l. \<not> startswith l ''Z'' \<and> l \<noteq> ''M2'')
        (split_nl (g_code_allignment (toTextFile fr
      [[(PyInt 0, PyInt 0), (PyInt 1, PyInt 0), (PyInt 1, PyInt 1), (PyInt 0, PyInt 0)]])))"
  by (simp add: emit_eval align_eval nl_def)

text \<open>
  C5, as stated: reapplying the aligner would keep the positioning lines of its first
  output, each marked as a rapid move. For the program below the first output has the cut
  move \<^verbatim>\<open>G01 X1. Y0.\<close>; the second output has neither that line nor \<^verbatim>\<open>G00 X1. Y0.\<close>: it is
  the two moves of the frame and nothing else.
\<close>

theorem aligner_twice_drops_moves:
  "''G01 X1. Y0.'' \<in> set (split_nl (g_code_allignment ''X0. Y0.\<newline>Z0.\<newline>X1. Y0.\<newline>Z1.\<newline>X0. Y0.\<newline>M2''))
   \<and> split_nl (g_code_allignment (g_code_allignment ''X0. Y0.\<newline>Z0.\<newline>X1. Y0.\<newline>Z1.\<newline>X0. Y0.\<newline>M2''))
       = [''G00 X0. Y0.'', ''G00 X0. Y0.'', []]
   \<and> ''G00 X1. Y0.'' \<notin> set (split_nl (g_code_allignment (g_code_allignment ''X0. Y0.\<newline>Z0.\<newline>X1. Y0.\<newline>Z1.\<newline>X0. Y0.\<newline>M2'')))"
  by (simp add: align_eval nl_def)

text \<open>
  C5, amended. The aligner is not idempotent: when its output for a program has a line
  that starts with the cut-move code, reapplying it gives a different program, and that
  program is only the two rapid moves to the origin of the frame. The lines of the first
  output start with a motion code, none starts with \<^verbatim>\<open>X\<close>, so the second pass drops every
  one of them instead of marking it as a rapid move.
\<close>

theorem aligner_not_idempotent:
  assumes "l \<in> set (split_nl (g_code_allignment p))" and "startswith l ''G01 ''"
  shows "g_code_allignment (g_code_allignment p) = ''G00 X0. Y0.\<newline>G00 X0. Y0.\<newline>''
       \<and> g_code_allignment (g_code_allignment p) \<noteq> g_code_allignment p
       \<and> list_all (\<lambda>m. \<not> startswith m ''X'') (split_nl (g_code_allignment p))"
proof -
  have a: "g_code_allignment (g_code_allignment p) = ''G00 X0. Y0.\<newline>G00 X0. Y0.\<newline>''"
    by (rule aligner_twice)
  have "l \<notin> set (split_nl ''G00 X0. Y0.\<newline>G00 X0. Y0.\<newline>'')"
    using assms(2) by (auto simp: startswith_def nl_def)
  then have b: "g_code_allignment p \<noteq> ''G00 X0. Y0.\<newline>G00 X0. Y0.\<newline>''"
    using assms(1) by auto
  obtain ms where ms: "list_all marked ms" "split_nl (g_code_allignment p) = ms @ [[]]"
    using aligner_lines by blast
  have c: "list_all (\<lambda>m. \<not> startswith m ''X'') (split_nl (g_code_allignment p))"
    using ms by (auto simp: list_all_iff startswith_def dest: marked_not_X)
  show ?thesis using a b c by simp
qed

theorem aligner_not_idempotent_witness:
  "''G01 X1. Y1.'' \<in> set (split_nl (g_code_allignment ''X3. Y4.\<newline>Z0.\<newline>X1. Y1.\<newline>Z1.\<newline>X0. Y0.\<newline>M2''))
   \<and> startswith ''G01 X1. Y1.'' ''G01 ''
   \<and> g_code_allignment (g_code_allignment ''X3. Y4.\<newline>Z0.\<newline>X1. Y1.\<newline>Z1.\<newline>X0. Y0.\<newline>M2'')
       = ''G00 X0. Y0.\<newline>G00 X0. Y0.\<newline>''
   \<and> g_code_allignment (g_code_allignment ''X3. Y4.\<newline>Z0.\<newline>X1. Y1.\<newline>Z1.\<newline>X0. Y0.\<newline>M2'')
       \<noteq> g_code_allignment ''X3. Y4.\<newline>Z0.\<newline>X1. Y1.\<newline>Z1.\<newline>X0. Y0.\<newline>M2''"
proof -
  have h1: "''G01 X1. Y1.'' \<in> set (split_nl (g_code_allignment ''X3. Y4.\<newline>Z0.\<newline>X1. Y1.\<newline>Z1.\<newline>X0. Y0.\<newline>M2''))"
    by (simp add: align_eval nl_def)
  have h2: "startswith ''G01 X1. Y1.'' ''G01 ''"
    by (simp add: startswith_def)
  show ?thesis
    using h1 h2 aligner_not_idempotent [OF h1 h2] by blast
qed

section \<open>Properties of the path simplification\<close>

lemma subseq_take_mono: "i \<le> k \<Longrightarrow> subseq (take i cs) (take k cs)"
  by (metis min.absorb1 subseq_order.order_refl subseq_rev_drop_many take_take append_take_drop_id)

lemma subseq_take_whole: "subseq (take i cs) cs"
  by (metis append_take_drop_id subseq_rev_drop_many subseq_order.order_refl)

text \<open>Keeping the points at \<open>i\<close> and at a later index \<open>k\<close> extends a subsequence of the
  first \<open>i\<close> points to a subsequence of the first \<open>k + 1\<close> points.\<close>

lemma subseq_step:
  assumes "subseq new (take i cs)" "i < k" "k < length cs"
  shows "subseq (new @ [cs ! i, cs ! k]) (take (Suc k) cs)"
proof -
  have 1: "take (Suc k) cs = take k cs @ [cs ! k]"
    using assms(3) by (simp add: take_Suc_conv_app_nth)
  have "subseq (take (Suc i) cs) (take k cs)"
    using assms(2) by (intro subseq_take_mono) simp
  moreover have "take (Suc i) cs = take i cs @ [cs ! i]"
    using assms by (simp add: take_Suc_conv_app_nth)
  moreover have "subseq (new @ [cs ! i]) (take i cs @ [cs ! i])"
    using assms(1) by (simp add: subseq_append)
  ultimately have "subseq (new @ [cs ! i]) (take k cs)"
    by (metis subseq_order.order_trans)
  then have "subseq ((new @ [cs ! i]) @ [cs ! k]) (take k cs @ [cs ! k])"
    by (intro list_emb_append_mono) simp_all
  then show ?thesis by (simp add: 1)
qed

text \<open>The invariant of the outer loop: what has been kept is a subsequence of the points
  before \<open>i\<close>.\<close>

lemma smooth_outer_subseq:
  "subseq new (take i cs) \<Longrightarrow> subseq (smooth_outer cs i new) cs"
proof (induction cs i new rule: smooth_outer.induct)
  case (1 cs i new)
  show ?case
  proof (cases "i < length cs - 2")
    case False
    then have "smooth_outer cs i new = new" by (simp add: smooth_outer.simps)
    with "1.prems" show ?thesis
      by (metis subseq_take_whole subseq_order.order_trans)
  next
    case True
    obtain i' new' where r: "smooth_inner cs i (length cs - 1) new = (i', new')"
      by (cases "smooth_inner cs i (length cs - 1) new")
    have step: "smooth_outer cs i new = smooth_outer cs (i' + 1) new'"
      using True r by (subst smooth_outer.simps) simp
    have "subseq new' (take (i' + 1) cs)"
      using smooth_inner_cases [of cs i "length cs - 1" new]
    proof
      assume "smooth_inner cs i (length cs - 1) new = (i, new)"
      with r have "i' = i" "new' = new" by simp_all
      with "1.prems" show ?thesis
        by (metis subseq_take_mono subseq_order.order_trans le_add1)
    next
      assume "\<exists>k. i + 1 < k \<and> k \<le> length cs - 1 \<and>
        smooth_inner cs i (length cs - 1) new = (k, new @ [cs ! i, cs ! k])"
      then obtain k where k: "i + 1 < k" "k \<le> length cs - 1"
        "smooth_inner cs i (length cs - 1) new = (k, new @ [cs ! i, cs ! k])" by blast
      with r have "i' = k" "new' = new @ [cs ! i, cs ! k]" by simp_all
      moreover have "subseq (new @ [cs ! i, cs ! k]) (take (Suc k) cs)"
        using "1.prems" k True by (intro subseq_step) simp_all
      ultimately show ?thesis by simp
    qed
    then have "subseq (smooth_outer cs (i' + 1) new') cs"
      using "1.IH" [OF True r [symmetric]] by simp
    with step show ?thesis by simp
  qed
qed

lemma smooth_shape_subseq: "subseq (smooth_shape cs) cs"
  by (simp add: smooth_shape_def smooth_outer_subseq)

text \<open>
  C1. Shape by shape, the output of \<^verbatim>\<open>smoothRasterCoords\<close> is a subsequence of the input
  polyline: only points of the input, in their order, each position of the input used at
  most once. So it is no longer than the input, and an input of at most two points comes
  back unchanged.
\<close>

theorem smoothRasterCoords_subseq:
  "list_all2
     (\<lambda>out inp. subseq out inp \<and> length out \<le> length inp \<and> (length inp \<le> 2 \<longrightarrow> out = inp))
     (smoothRasterCoords coords) coords"
proof -
  have short: "length cs \<le> 2 \<Longrightarrow> smooth_shape cs = cs" for cs
    by (simp add: smooth_shape_def)
  have len: "length (smooth_shape cs) \<le> length cs" for cs
    using smooth_shape_subseq [of cs] by (rule list_emb_length)
  show ?thesis
    unfolding smoothRasterCoords_def Let_def
    by (induction coords) (simp_all add: smooth_shape_subseq short len)
qed

theorem smoothRasterCoords_subseq_witness:
  "length [(PyInt 4, PyInt 7), (PyInt 9, PyInt 7)] \<le> 2
   \<and> smoothRasterCoords [[(PyInt 4, PyInt 7), (PyInt 9, PyInt 7)]]
       = [[(PyInt 4, PyInt 7), (PyInt 9, PyInt 7)]]"
  using smoothRasterCoords_subseq [of "[[(PyInt 4, PyInt 7), (PyInt 9, PyInt 7)]]"]
  by (simp add: list_all2_Cons2)

section \<open>Properties of the tracer\<close>





declare nextPixelInShape.simps(2) [simp del]








section \<open>Properties of the DXF reader\<close>

lemmas dxf_eval = dxf_init_def append_at_def strip_def is_space_def float_table_def

text \<open>
  C6. A vertex should be appended when it differs from the point captured before it in the
  same shape, so the first vertex of a new polyline should always be appended. The loop
  compares with \<^verbatim>\<open>xold\<close> and \<^verbatim>\<open>yold\<close>, which a new \<^verbatim>\<open>POLYLINE\<close> does not reset: they
  still hold the last vertex of the shape before. Two polylines, from (1, 2) to (3, 4) and
  from (3, 4) to (5, 6): the second shape comes out without its first vertex.
\<close>

theorem dxf_loop_drops_shared_first_vertex:
  "map_sum id dpath (dxf_loop float_table dxf_init
    [''POLYLINE\<newline>'',
     ''VERTEX\<newline>'', '' 10\<newline>'', ''1.0\<newline>'', '' 20\<newline>'', ''2.0\<newline>'',
     ''VERTEX\<newline>'', '' 10\<newline>'', ''3.0\<newline>'', '' 20\<newline>'', ''4.0\<newline>'',
     ''SEQEND\<newline>'',
     ''POLYLINE\<newline>'',
     ''VERTEX\<newline>'', '' 10\<newline>'', ''3.0\<newline>'', '' 20\<newline>'', ''4.0\<newline>'',
     ''VERTEX\<newline>'', '' 10\<newline>'', ''5.0\<newline>'', '' 20\<newline>'', ''6.0\<newline>'',
     ''SEQEND\<newline>''])
   = Inr [[(PyFloat 1, PyFloat 2), (PyFloat 3, PyFloat 4)], [(PyFloat 5, PyFloat 6)]]"
  by (simp add: dxf_eval)

section \<open>Properties of the rescaling\<close>


lemma foldl_min_le: "foldl min a xs \<le> a \<and> (\<forall>v\<in>set xs. foldl min a xs \<le> v)" for a :: real
proof (induction xs arbitrary: a)
  case Nil
  show ?case by simp
next
  case (Cons x xs)
  from Cons [of "min a x"] show ?case by auto
qed











lemmas scale_eval = scale_def list_max_def list_min_def IMDIM_def
lemmas round_eval = double_round_def eval_nat_numeral round_even_def

lemma double_round_0: "double_round 0 = 0"
  by (simp add: double_round_def)


lemma double_round_10:
  "double_round 10 = 10" "double_round (61 / 2) = 61 / 2" "double_round 305 = 305"
  by (simp_all add: round_eval)

text \<open>With the doubles of the interpreter the example of the specification, coordinates
  from 0 to 10, is scaled to exactly 305: every operation on it is exact.\<close>

lemma scale_double_ten:
  "scale double_round [[(PyFloat 0, PyFloat 0), (PyFloat 10, PyFloat 10)]]
   = Inr [[(PyFloat 0, PyFloat 0), (PyFloat 305, PyFloat 305)]]"
  by (simp add: scale_eval double_round_0 double_round_10 Let_def)




section \<open>Properties of the choice of the reader\<close>

text \<open>
  C9, as stated: a file name with an unknown extension would be rejected with a format
  error. For \<^verbatim>\<open>drawing.svg\<close> the function returns the shape list \<^verbatim>\<open>[[(0, 0)]]\<close>.
\<close>

theorem imToPaths_svg_placeholder:
  "imToPaths blank_image [] float_table id 10000 \<lparr>direc = 0, done_px = []\<rparr> ''drawing.svg''
   = Some (Inr ([[(PyInt 0, PyInt 0)]], \<lparr>direc = 0, done_px = []\<rparr>))"
  by (simp add: imToPaths_def endswith_def suffix_def)

text \<open>
  C9, amended. For every file name whose extension is neither one of the raster extensions
  nor \<^verbatim>\<open>.dxf\<close>, \<^verbatim>\<open>imToPaths\<close> raises no error: it returns the placeholder shape list
  \<^verbatim>\<open>[[(0, 0)]]\<close>, one shape of one point, and leaves the state of the tracer as it is.
\<close>

theorem imToPaths_unknown_extension:
  assumes "\<not> endswith filename ''.jpg''" "\<not> endswith filename ''.jpeg''"
    "\<not> endswith filename ''.png''" "\<not> endswith filename ''.bmp''"
    "\<not> endswith filename ''.dxf''"
  shows "imToPaths im DXFtxt float_of rnd depth st filename
           = Some (Inr ([[(PyInt 0, PyInt 0)]], st))"
  using assms by (simp add: imToPaths_def)

theorem imToPaths_unknown_extension_witness:
  "\<not> endswith ''notes.txt'' ''.jpg'' \<and> \<not> endswith ''notes.txt'' ''.jpeg''
   \<and> \<not> endswith ''notes.txt'' ''.png'' \<and> \<not> endswith ''notes.txt'' ''.bmp''
   \<and> \<not> endswith ''notes.txt'' ''.dxf''
   \<and> imToPaths dot_image [] float_table double_round 100 \<lparr>direc = 1, done_px = [(2, 2)]\<rparr> ''notes.txt''
       = Some (Inr ([[(PyInt 0, PyInt 0)]], \<lparr>direc = 1, done_px = [(2, 2)]\<rparr>))"
proof -
  have h: "\<not> endswith ''notes.txt'' ''.jpg''" "\<not> endswith ''notes.txt'' ''.jpeg''"
    "\<not> endswith ''notes.txt'' ''.png''" "\<not> endswith ''notes.txt'' ''.bmp''"
    "\<not> endswith ''notes.txt'' ''.dxf''"
    by (simp_all add: endswith_def suffix_def)
  show ?thesis
    using h imToPaths_unknown_extension [OF h, of dot_image "[]" float_table double_round 100
        "\<lparr>direc = 1, done_px = [(2, 2)]\<rparr>"]
    by simp
qed

end
